theory Spec2Isabelle
  imports Main "HOL-Library.Word"
begin

section \<open>Values held by the session and exchanged with the providers\<close>

text \<open>
  The session of \<^verbatim>\<open>request.session\<close> is a Python dict from string keys to JSON-like
  values; the query parameters are a mapping from names to strings. Python's \<^verbatim>\<open>None\<close>
  is \<open>JNull\<close>, and \<open>truthy\<close> is Python's truth test (\<^verbatim>\<open>not x\<close> is its negation).
  Numbers are integers here; no operation of the service computes with them.
\<close>

datatype json =
    JNull
  | JBool bool
  | JInt int
  | JStr string
  | JList "json list"
  | JObj "(string \<times> json) list"

fun truthy :: "json \<Rightarrow> bool" where
  "truthy JNull = False"
| "truthy (JBool b) = b"
| "truthy (JInt i) = (i \<noteq> 0)"
| "truthy (JStr s) = (s \<noteq> [])"
| "truthy (JList xs) = (xs \<noteq> [])"
| "truthy (JObj kvs) = (kvs \<noteq> [])"

type_synonym session = "string \<rightharpoonup> json"

type_synonym query_params = "string \<rightharpoonup> string"

text \<open>\<^verbatim>\<open>request.session.get(key)\<close>: the stored value, or \<^verbatim>\<open>None\<close> when the key is absent.\<close>

definition session_get :: "session \<Rightarrow> string \<Rightarrow> json" where
  "session_get s k = (case s k of None \<Rightarrow> JNull | Some v \<Rightarrow> v)"

text \<open>\<^verbatim>\<open>request.session.pop(key, default)\<close>: the value read and the dict without the key.\<close>

definition session_pop :: "session \<Rightarrow> string \<Rightarrow> json \<Rightarrow> json \<times> session" where
  "session_pop s k d = ((case s k of None \<Rightarrow> d | Some v \<Rightarrow> v), s(k := None))"

text \<open>\<^verbatim>\<open>request.query_params.get(key)\<close>: a string, or \<^verbatim>\<open>None\<close>.\<close>

definition query_get :: "query_params \<Rightarrow> string \<Rightarrow> json" where
  "query_get q k = (case q k of None \<Rightarrow> JNull | Some v \<Rightarrow> JStr v)"

text \<open>
  Exceptions are values. \<open>HTTPException status detail\<close> is FastAPI's exception as the
  service raises it; \<open>OtherException\<close> stands for anything a library call raises
  (an OAuth error of the client library, a transport error, a JSON decoding error).
\<close>

datatype exn = HTTPException int string | OtherException string

datatype response = RedirectResponse json

record http_response =
  status_code :: int
  text_body :: string
  json_body :: "exn + json"

section \<open>Configuration and the provider registry\<close>

datatype OAuthProvider = GOOGLE | FACEBOOK | LINKEDIN

fun provider_value :: "OAuthProvider \<Rightarrow> string" where
  "provider_value GOOGLE = ''google''"
| "provider_value FACEBOOK = ''facebook''"
| "provider_value LINKEDIN = ''linkedin''"

text \<open>
  The module \<^verbatim>\<open>src.config\<close> is not part of the sources at hand; its \<^verbatim>\<open>settings\<close> object
  is a parameter of the model.
\<close>

record settings =
  GOOGLE_CLIENT_ID :: string
  GOOGLE_CLIENT_SECRET :: string
  FACEBOOK_CLIENT_ID :: string
  FACEBOOK_CLIENT_SECRET :: string
  LINKEDIN_CLIENT_ID :: string
  LINKEDIN_CLIENT_SECRET :: string

text \<open>What \<^verbatim>\<open>self.oauth.register(...)\<close> is given for one provider.\<close>

record oauth_client =
  name :: string
  client_id :: string
  client_secret :: string
  server_metadata_url :: "string option"
  access_token_url :: "string option"
  authorize_url :: "string option"
  api_base_url :: "string option"
  scope :: string

definition create_google_client :: "settings \<Rightarrow> oauth_client" where
  "create_google_client cfg =
     \<lparr> name = ''google'',
       client_id = GOOGLE_CLIENT_ID cfg,
       client_secret = GOOGLE_CLIENT_SECRET cfg,
       server_metadata_url = Some ''https://accounts.google.com/.well-known/openid-configuration'',
       access_token_url = None,
       authorize_url = None,
       api_base_url = None,
       scope = ''openid email profile'' \<rparr>"

definition create_facebook_client :: "settings \<Rightarrow> oauth_client" where
  "create_facebook_client cfg =
     \<lparr> name = ''facebook'',
       client_id = FACEBOOK_CLIENT_ID cfg,
       client_secret = FACEBOOK_CLIENT_SECRET cfg,
       server_metadata_url = None,
       access_token_url = Some ''https://graph.facebook.com/oauth/access_token'',
       authorize_url = Some ''https://www.facebook.com/dialog/oauth'',
       api_base_url = Some ''https://graph.facebook.com/v12.0/'',
       scope = ''email public_profile'' \<rparr>"

definition create_linkedin_client :: "settings \<Rightarrow> oauth_client" where
  "create_linkedin_client cfg =
     \<lparr> name = ''linkedin'',
       client_id = LINKEDIN_CLIENT_ID cfg,
       client_secret = LINKEDIN_CLIENT_SECRET cfg,
       server_metadata_url = None,
       access_token_url = Some ''https://www.linkedin.com/oauth/v2/accessToken'',
       authorize_url = Some ''https://www.linkedin.com/oauth/v2/authorization'',
       api_base_url = Some ''https://api.linkedin.com/v2/'',
       scope = ''openid profile email'' \<rparr>"

definition initialize_clients :: "settings \<Rightarrow> (string \<rightharpoonup> oauth_client)" where
  "initialize_clients cfg =
     [ provider_value GOOGLE \<mapsto> create_google_client cfg,
       provider_value FACEBOOK \<mapsto> create_facebook_client cfg,
       provider_value LINKEDIN \<mapsto> create_linkedin_client cfg ]"

record oauth_service =
  clients :: "string \<rightharpoonup> oauth_client"

definition OAuthService_init :: "settings \<Rightarrow> oauth_service" where
  "OAuthService_init cfg = \<lparr> clients = initialize_clients cfg \<rparr>"

section \<open>The outside world of one request\<close>

text \<open>
  Everything the service asks of its collaborators during one request: the operating
  system's random bytes, the router's URL construction, the client library's redirect
  and token exchange, and the two outbound HTTP requests. Each answer is either a value
  or a raised exception. The client library's own bookkeeping in the session (keys
  private to the library) is outside the model.
\<close>

record world =
  entropy :: "nat \<Rightarrow> 8 word"
  url_for :: "string \<Rightarrow> string \<Rightarrow> string"
  authorize_redirect :: "oauth_client \<Rightarrow> string \<Rightarrow> string \<Rightarrow> exn + response"
  authorize_access_token :: "oauth_client \<Rightarrow> session \<Rightarrow> query_params \<Rightarrow> exn + json"
  httpx_post :: "string \<Rightarrow> (string \<times> json) list \<Rightarrow> exn + http_response"
  client_get :: "oauth_client \<Rightarrow> string \<Rightarrow> json \<Rightarrow> exn + http_response"

text \<open>\<^verbatim>\<open>os.urandom(n)\<close>: exactly \<open>n\<close> bytes of the entropy source.\<close>

definition os_urandom :: "world \<Rightarrow> nat \<Rightarrow> 8 word list" where
  "os_urandom w n = map (entropy w) [0..<n]"




section \<open>The OAuth service\<close>


text \<open>
  The form body of LinkedIn's token request (\<^verbatim>\<open>token_data\<close> in \<^verbatim>\<open>get_token\<close>); the
  authorization code is \<^verbatim>\<open>request.query_params.get("code")\<close>.
\<close>

definition token_data :: "settings \<Rightarrow> world \<Rightarrow> string \<Rightarrow> query_params \<Rightarrow> (string \<times> json) list" where
  "token_data cfg w provider query =
     (let authorization_code = query_get query ''code'';
          redirect_uri = url_for w ''auth_callback'' provider
      in [ (''grant_type'', JStr ''authorization_code''),
           (''code'', authorization_code),
           (''redirect_uri'', JStr redirect_uri),
           (''client_id'', JStr (LINKEDIN_CLIENT_ID cfg)),
           (''client_secret'', JStr (LINKEDIN_CLIENT_SECRET cfg)) ])"

definition get_token ::
  "settings \<Rightarrow> world \<Rightarrow> string \<Rightarrow> oauth_client \<Rightarrow> session \<Rightarrow> query_params \<Rightarrow> exn + json" where
  "get_token cfg w provider oauth_client session query =
     (if provider = provider_value LINKEDIN then
        (case httpx_post w ''https://www.linkedin.com/oauth/v2/accessToken''
                (token_data cfg w provider query) of
           Inl e \<Rightarrow> Inl e
         | Inr token_response \<Rightarrow>
             if status_code token_response \<noteq> 200
             then Inl (HTTPException 400
                         (''Failed to fetch access token: '' @ text_body token_response))
             else json_body token_response)
      else authorize_access_token w oauth_client session query)"

text \<open>
  \<^verbatim>\<open>fetch_user_data\<close> asks the provider's user-info endpoint (one URL per branch of
  the source), catches every exception and returns \<^verbatim>\<open>None\<close>; the body of a 200
  response is returned as it was parsed, whatever fields it has.
\<close>

definition userinfo_url :: "oauth_client \<Rightarrow> string" where
  "userinfo_url oauth_client =
     (if name oauth_client = provider_value LINKEDIN
      then ''https://api.linkedin.com/v2/userinfo''
      else if name oauth_client = provider_value FACEBOOK
      then ''https://graph.facebook.com/v12.0/me?fields=id,name,email,picture''
      else ''https://www.googleapis.com/oauth2/v1/userinfo'')"

definition fetch_user_data :: "world \<Rightarrow> oauth_client \<Rightarrow> json \<Rightarrow> json" where
  "fetch_user_data w oauth_client token =
     (case client_get w oauth_client (userinfo_url oauth_client) token of
        Inl e \<Rightarrow> JNull
      | Inr response \<Rightarrow>
          if status_code response = 200
          then (case json_body response of Inl e \<Rightarrow> JNull | Inr data \<Rightarrow> data)
          else JNull)"

definition handle_oauth_callback ::
  "oauth_service \<Rightarrow> settings \<Rightarrow> world \<Rightarrow> string \<Rightarrow> session \<Rightarrow> query_params
     \<Rightarrow> (exn + response) \<times> session" where
  "handle_oauth_callback self cfg w provider session query =
     (let stored_state = session_get session ''oauth_state'';
          received_state = query_get query ''state''
      in if \<not> truthy stored_state \<or> stored_state \<noteq> received_state
         then (Inl (HTTPException 400 ''Invalid state parameter.''), session)
         else
           let session1 = snd (session_pop session ''oauth_state'' JNull)
           in (case clients self provider of
                 None \<Rightarrow> (Inl (HTTPException 400 ''Invalid provider''), session1)
               | Some oauth_client \<Rightarrow>
                   (case get_token cfg w provider oauth_client session1 query of
                      Inl e \<Rightarrow> (Inl e, session1)
                    | Inr token \<Rightarrow>
                        let user_data = fetch_user_data w oauth_client token
                        in if \<not> truthy user_data
                           then (Inl (HTTPException 400 ''Failed to fetch user data.''), session1)
                           else
                             let session2 = session1(''user'' \<mapsto> user_data);
                                 popped = session_pop session2 ''redirect_path'' (JStr ''/success'')
                             in (Inr (RedirectResponse (fst popped)), snd popped))))"

text \<open>The route \<^verbatim>\<open>/logout\<close>: \<^verbatim>\<open>request.session.clear()\<close>, then a redirect to the root.\<close>

definition logout :: "session \<Rightarrow> (exn + response) \<times> session" where
  "logout session = (Inr (RedirectResponse (JStr ''/'')), Map.empty)"

section \<open>The order of the session and registry accesses\<close>





section \<open>The errors of the specification, as the code raises them\<close>

definition InvalidStateError :: exn where
  "InvalidStateError = HTTPException 400 ''Invalid state parameter.''"

definition TokenExchangeError :: "string \<Rightarrow> exn" where
  "TokenExchangeError upstream_body = HTTPException 400 (''Failed to fetch access token: '' @ upstream_body)"

definition ProfileFetchError :: exn where
  "ProfileFetchError = HTTPException 400 ''Failed to fetch user data.''"

section \<open>A concrete configuration and world\<close>

text \<open>
  The mocked collaborators of the repository's tests: a token exchange that answers
  \<^verbatim>\<open>{"access_token": "mock_token"}\<close> and a user-info endpoint that answers
  \<^verbatim>\<open>{"id": "12345", "email": "test@example.com"}\<close>.
\<close>

definition example_settings :: settings where
  "example_settings =
     \<lparr> GOOGLE_CLIENT_ID = ''gid'', GOOGLE_CLIENT_SECRET = ''gsecret'',
       FACEBOOK_CLIENT_ID = ''fid'', FACEBOOK_CLIENT_SECRET = ''fsecret'',
       LINKEDIN_CLIENT_ID = ''lid'', LINKEDIN_CLIENT_SECRET = ''lsecret'' \<rparr>"

definition example_token :: json where
  "example_token = JObj [(''access_token'', JStr ''mock_token'')]"

definition example_profile :: json where
  "example_profile = JObj [(''id'', JStr ''12345''), (''email'', JStr ''test@example.com'')]"

definition example_world :: world where
  "example_world =
     \<lparr> entropy = (\<lambda>i. 0),
       url_for = (\<lambda>route provider. ''https://example.com/'' @ route),
       authorize_redirect = (\<lambda>c uri st. Inr (RedirectResponse (JStr ''https://idp.example/authorize''))),
       authorize_access_token = (\<lambda>c s q. Inr example_token),
       httpx_post = (\<lambda>url form.
          Inr \<lparr> status_code = 200, text_body = [], json_body = Inr example_token \<rparr>),
       client_get = (\<lambda>c url tok.
          Inr \<lparr> status_code = 200, text_body = [], json_body = Inr example_profile \<rparr>) \<rparr>"

text \<open>The sessions and query strings of the tests, and two further ones.\<close>

definition pending_session :: session where
  "pending_session = [''oauth_state'' \<mapsto> JStr ''valid_state'']"

definition matching_query :: query_params where
  "matching_query = [''state'' \<mapsto> ''valid_state'', ''code'' \<mapsto> ''abc'']"

definition mismatching_query :: query_params where
  "mismatching_query = [''state'' \<mapsto> ''invalid_state'']"

definition empty_state_session :: session where
  "empty_state_session = [''oauth_state'' \<mapsto> JStr []]"

definition empty_state_query :: query_params where
  "empty_state_query = [''state'' \<mapsto> []]"

text \<open>A token endpoint that refuses the code, and user-info endpoints that fail or
  answer a document without \<^verbatim>\<open>id\<close>.\<close>

definition refused_token_response :: http_response where
  "refused_token_response =
     \<lparr> status_code = 401, text_body = ''invalid_grant'',
       json_body = Inr (JObj [(''error'', JStr ''invalid_grant'')]) \<rparr>"

definition refusing_world :: world where
  "refusing_world = example_world \<lparr> httpx_post := (\<lambda>url form. Inr refused_token_response) \<rparr>"

definition failing_profile_world :: world where
  "failing_profile_world =
     example_world \<lparr> client_get := (\<lambda>c url tok.
        Inr \<lparr> status_code = 500, text_body = ''oops'', json_body = Inl (OtherException ''JSONDecodeError'') \<rparr>) \<rparr>"

definition profile_without_id :: json where
  "profile_without_id = JObj [(''email'', JStr ''test@example.com'')]"

definition no_id_response :: http_response where
  "no_id_response = \<lparr> status_code = 200, text_body = [], json_body = Inr profile_without_id \<rparr>"

definition no_id_world :: world where
  "no_id_world = example_world \<lparr> client_get := (\<lambda>c url tok. Inr no_id_response) \<rparr>"



section \<open>The registry and the enumeration\<close>


lemma linkedin_registered:
  "clients (OAuthService_init cfg) (provider_value LINKEDIN) = Some (create_linkedin_client cfg)"
  by (simp add: OAuthService_init_def initialize_clients_def)

lemma google_registered:
  "clients (OAuthService_init cfg) (provider_value GOOGLE) = Some (create_google_client cfg)"
  by (simp add: OAuthService_init_def initialize_clients_def)

section \<open>The state check of the callback\<close>

text \<open>
  The callback has two regimes. When the stored state is falsy (absent, \<^verbatim>\<open>None\<close>,
  empty) or differs from the received one, it raises at once and the session is as it
  was. Otherwise the stored state is popped, and everything after works on the session
  without it.
\<close>

lemma state_check_fails:
  "\<not> truthy (session_get session ''oauth_state'')
     \<or> session_get session ''oauth_state'' \<noteq> query_get query ''state''
   \<Longrightarrow> handle_oauth_callback self cfg w provider session query
         = (Inl (HTTPException 400 ''Invalid state parameter.''), session)"
  by (simp add: handle_oauth_callback_def Let_def)

lemma state_check_passes:
  assumes "truthy (session_get session ''oauth_state'')"
    and "session_get session ''oauth_state'' = query_get query ''state''"
  shows "handle_oauth_callback self cfg w provider session query =
     (case clients self provider of
        None \<Rightarrow> (Inl (HTTPException 400 ''Invalid provider''), session(''oauth_state'' := None))
      | Some oauth_client \<Rightarrow>
          (case get_token cfg w provider oauth_client (session(''oauth_state'' := None)) query of
             Inl e \<Rightarrow> (Inl e, session(''oauth_state'' := None))
           | Inr token \<Rightarrow>
               if \<not> truthy (fetch_user_data w oauth_client token)
               then (Inl (HTTPException 400 ''Failed to fetch user data.''),
                     session(''oauth_state'' := None))
               else (Inr (RedirectResponse
                            (case session ''redirect_path'' of
                               None \<Rightarrow> JStr ''/success'' | Some p \<Rightarrow> p)),
                     session(''oauth_state'' := None,
                             ''user'' \<mapsto> fetch_user_data w oauth_client token,
                             ''redirect_path'' := None))))"
  using assms
  by (simp add: handle_oauth_callback_def Let_def session_pop_def split: option.splits sum.splits)

lemma consumed_after_check:
  assumes "truthy (session_get session ''oauth_state'')"
    and "session_get session ''oauth_state'' = query_get query ''state''"
  shows "snd (handle_oauth_callback self cfg w provider session query) ''oauth_state'' = None"
  by (simp add: state_check_passes [OF assms] split: option.splits sum.splits)

lemma absent_not_truthy:
  "session ''oauth_state'' = None \<Longrightarrow> \<not> truthy (session_get session ''oauth_state'')"
  by (simp add: session_get_def)

section \<open>Hexadecimal encoding of the random bytes\<close>








lemma length_os_urandom: "length (os_urandom w n) = n"
  by (simp add: os_urandom_def)

section \<open>Login initiation\<close>


section \<open>The accesses against the operations\<close>






section \<open>Evaluation at the concrete sessions and worlds\<close>

lemmas example_defs =
  pending_session_def matching_query_def mismatching_query_def empty_state_session_def
  empty_state_query_def session_get_def query_get_def

lemma pending_state_ok:
  "truthy (session_get pending_session ''oauth_state'')"
  "session_get pending_session ''oauth_state'' = query_get matching_query ''state''"
  by (simp_all add: example_defs)

lemma google_token_example:
  "get_token example_settings (example_world\<lparr>client_get := g\<rparr>) (provider_value GOOGLE)
     (create_google_client example_settings) s matching_query = Inr example_token"
  by (simp add: get_token_def example_world_def)




section \<open>The claims\<close>

subsection \<open>C1: consumption of the stored state\<close>

text \<open>
  Claim C1 says that after every call of the callback, also one that raises the
  invalid-state error, \<^verbatim>\<open>oauth_state\<close> is absent from the session. The code pops the
  stored state only after the state check has passed. What holds is: when the stored
  state is truthy and equals the received state, \<^verbatim>\<open>oauth_state\<close> is absent after the
  call, whether the call then returns or raises; when the check fails, the call raises
  the invalid-state error and the session, the stored state included, is unchanged.
\<close>

theorem oauth_state_consumed_once_check_passes:
  "(truthy (session_get session ''oauth_state'')
      \<and> session_get session ''oauth_state'' = query_get query ''state''
    \<longrightarrow> snd (handle_oauth_callback self cfg w provider session query) ''oauth_state'' = None)
   \<and> (\<not> (truthy (session_get session ''oauth_state'')
          \<and> session_get session ''oauth_state'' = query_get query ''state'')
    \<longrightarrow> handle_oauth_callback self cfg w provider session query = (Inl InvalidStateError, session))"
  using consumed_after_check [of session query self cfg w provider]
    state_check_fails [of session query self cfg w provider]
  by (auto simp: InvalidStateError_def)

theorem oauth_state_consumed_once_check_passes_witness:
  "snd (handle_oauth_callback (OAuthService_init example_settings) example_settings example_world
          (provider_value GOOGLE) pending_session matching_query) ''oauth_state'' = None
   \<and> handle_oauth_callback (OAuthService_init example_settings) example_settings example_world
          (provider_value GOOGLE) pending_session mismatching_query
       = (Inl InvalidStateError, pending_session)"
  using oauth_state_consumed_once_check_passes [of pending_session matching_query
          "OAuthService_init example_settings" example_settings example_world "provider_value GOOGLE"]
        oauth_state_consumed_once_check_passes [of pending_session mismatching_query
          "OAuthService_init example_settings" example_settings example_world "provider_value GOOGLE"]
  by (simp add: example_defs)

text \<open>
  The statement as written fails on the input of the repository's own test of an
  invalid state: stored \<^verbatim>\<open>"valid_state"\<close>, received \<^verbatim>\<open>"invalid_state"\<close>. The call
  raises the invalid-state error and the stored state is still in the session.
\<close>

theorem oauth_state_survives_mismatch_counterexample:
  "fst (handle_oauth_callback (OAuthService_init example_settings) example_settings example_world
          (provider_value GOOGLE) pending_session mismatching_query) = Inl InvalidStateError
   \<and> snd (handle_oauth_callback (OAuthService_init example_settings) example_settings example_world
          (provider_value GOOGLE) pending_session mismatching_query) ''oauth_state''
       = Some (JStr ''valid_state'')"
  by (simp add: handle_oauth_callback_def Let_def example_defs InvalidStateError_def)

subsection \<open>C2: a replayed callback\<close>

text \<open>
  Claim C2: when the callback is called twice in sequence with the same received state,
  the second call raises the invalid-state error, whatever the providers, the
  configuration and the collaborators' answers are in either call. If the first call
  passed the state check, it removed \<^verbatim>\<open>oauth_state\<close> (before the token exchange, which
  is given the session without it), so the second call finds it absent; if the first
  call failed the check, the session is unchanged and the same comparison fails again.
\<close>

theorem replayed_callback_rejected:
  assumes "query2 ''state'' = query1 ''state''"
  shows "fst (handle_oauth_callback self2 cfg2 w2 provider2
                (snd (handle_oauth_callback self1 cfg1 w1 provider1 session query1)) query2)
         = Inl InvalidStateError
       \<and> (truthy (session_get session ''oauth_state'')
            \<and> session_get session ''oauth_state'' = query_get query1 ''state''
          \<longrightarrow> snd (handle_oauth_callback self1 cfg1 w1 provider1 session query1) ''oauth_state'' = None)"
proof (cases "truthy (session_get session ''oauth_state'')
               \<and> session_get session ''oauth_state'' = query_get query1 ''state''")
  case True
  then have gone: "snd (handle_oauth_callback self1 cfg1 w1 provider1 session query1) ''oauth_state'' = None"
    using consumed_after_check by blast
  then have "\<not> truthy (session_get (snd (handle_oauth_callback self1 cfg1 w1 provider1 session query1)) ''oauth_state'')"
    by (rule absent_not_truthy)
  then show ?thesis using gone
    by (simp add: state_check_fails InvalidStateError_def)
next
  case False
  then have first: "handle_oauth_callback self1 cfg1 w1 provider1 session query1
                      = (Inl (HTTPException 400 ''Invalid state parameter.''), session)"
    using state_check_fails by blast
  have "query_get query2 ''state'' = query_get query1 ''state''"
    using assms by (simp add: query_get_def)
  with False have "\<not> truthy (session_get session ''oauth_state'')
     \<or> session_get session ''oauth_state'' \<noteq> query_get query2 ''state''" by simp
  then have "handle_oauth_callback self2 cfg2 w2 provider2 session query2
                = (Inl (HTTPException 400 ''Invalid state parameter.''), session)"
    by (rule state_check_fails)
  then show ?thesis using False
    by (auto simp: first InvalidStateError_def)
qed

theorem replayed_callback_rejected_witness:
  "fst (handle_oauth_callback (OAuthService_init example_settings) example_settings example_world
          (provider_value GOOGLE)
          (snd (handle_oauth_callback (OAuthService_init example_settings) example_settings
                  example_world (provider_value GOOGLE) pending_session matching_query))
          matching_query)
     = Inl InvalidStateError
   \<and> snd (handle_oauth_callback (OAuthService_init example_settings) example_settings
            example_world (provider_value GOOGLE) pending_session matching_query) ''oauth_state'' = None"
  using replayed_callback_rejected [of matching_query matching_query
          "OAuthService_init example_settings" example_settings example_world "provider_value GOOGLE"
          "OAuthService_init example_settings" example_settings example_world "provider_value GOOGLE"
          pending_session]
  by (simp add: example_defs)

subsection \<open>C3: absent and mismatching state\<close>

text \<open>
  Claim C3: when \<^verbatim>\<open>oauth_state\<close> is absent from the session, and when it is present
  but differs from the received state, the callback raises the same invalid-state
  error (status 400), and \<^verbatim>\<open>user\<close> is as before (the whole session is).
\<close>

theorem invalid_state_rejected:
  assumes "session ''oauth_state'' = None
           \<or> session_get session ''oauth_state'' \<noteq> query_get query ''state''"
  shows "fst (handle_oauth_callback self cfg w provider session query) = Inl InvalidStateError
         \<and> snd (handle_oauth_callback self cfg w provider session query) = session
         \<and> snd (handle_oauth_callback self cfg w provider session query) ''user'' = session ''user''"
proof -
  from assms have "\<not> truthy (session_get session ''oauth_state'')
     \<or> session_get session ''oauth_state'' \<noteq> query_get query ''state''"
    using absent_not_truthy by blast
  then show ?thesis
    by (simp add: state_check_fails InvalidStateError_def)
qed

theorem invalid_state_rejected_witness:
  "fst (handle_oauth_callback (OAuthService_init example_settings) example_settings example_world
          (provider_value GOOGLE) pending_session mismatching_query) = Inl InvalidStateError
   \<and> snd (handle_oauth_callback (OAuthService_init example_settings) example_settings example_world
          (provider_value GOOGLE) pending_session mismatching_query) ''user'' = None
   \<and> fst (handle_oauth_callback (OAuthService_init example_settings) example_settings example_world
          (provider_value GOOGLE) Map.empty matching_query) = Inl InvalidStateError
   \<and> snd (handle_oauth_callback (OAuthService_init example_settings) example_settings example_world
          (provider_value GOOGLE) Map.empty matching_query) ''user'' = None"
  using invalid_state_rejected [of pending_session mismatching_query
          "OAuthService_init example_settings" example_settings example_world "provider_value GOOGLE"]
        invalid_state_rejected [of Map.empty matching_query
          "OAuthService_init example_settings" example_settings example_world "provider_value GOOGLE"]
  by (simp add: example_defs)

subsection \<open>C4: the place of the provider check\<close>




subsection \<open>C5: a refused token exchange at LinkedIn\<close>

text \<open>
  Claim C5: for the provider \<^verbatim>\<open>linkedin\<close>, when the token endpoint answers the
  exchange (which takes place once the state check has passed) with a status other
  than 200, the callback raises an error of status 400 whose detail ends with the
  upstream body, and \<^verbatim>\<open>user\<close> is not written.
\<close>

theorem linkedin_token_exchange_failure:
  assumes "truthy (session_get session ''oauth_state'')"
    and "session_get session ''oauth_state'' = query_get query ''state''"
    and "httpx_post w ''https://www.linkedin.com/oauth/v2/accessToken''
           (token_data cfg w (provider_value LINKEDIN) query) = Inr token_response"
    and "status_code token_response \<noteq> 200"
  shows "fst (handle_oauth_callback (OAuthService_init cfg) cfg w (provider_value LINKEDIN) session query)
           = Inl (TokenExchangeError (text_body token_response))
       \<and> TokenExchangeError (text_body token_response)
           = HTTPException 400 (''Failed to fetch access token: '' @ text_body token_response)
       \<and> snd (handle_oauth_callback (OAuthService_init cfg) cfg w (provider_value LINKEDIN) session query) ''user''
           = session ''user''"
proof -
  have tok: "get_token cfg w (provider_value LINKEDIN) (create_linkedin_client cfg)
               (session(''oauth_state'' := None)) query
             = Inl (TokenExchangeError (text_body token_response))"
    using assms(3,4) by (simp add: get_token_def TokenExchangeError_def)
  have run: "handle_oauth_callback (OAuthService_init cfg) cfg w (provider_value LINKEDIN) session query
               = (Inl (TokenExchangeError (text_body token_response)), session(''oauth_state'' := None))"
    by (simp only: state_check_passes [OF assms(1,2)] linkedin_registered tok option.case sum.case)
  show ?thesis
    unfolding run by (simp add: TokenExchangeError_def)
qed

theorem linkedin_token_exchange_failure_witness:
  "fst (handle_oauth_callback (OAuthService_init example_settings) example_settings refusing_world
          (provider_value LINKEDIN) pending_session matching_query)
     = Inl (HTTPException 400 ''Failed to fetch access token: invalid_grant'')
   \<and> snd (handle_oauth_callback (OAuthService_init example_settings) example_settings refusing_world
          (provider_value LINKEDIN) pending_session matching_query) ''user'' = None"
proof -
  have a: "truthy (session_get pending_session ''oauth_state'')"
    by (simp add: example_defs)
  have b: "session_get pending_session ''oauth_state'' = query_get matching_query ''state''"
    by (simp add: example_defs)
  have c: "httpx_post refusing_world ''https://www.linkedin.com/oauth/v2/accessToken''
             (token_data example_settings refusing_world (provider_value LINKEDIN) matching_query)
           = Inr refused_token_response"
    by (simp add: refusing_world_def)
  have d: "status_code refused_token_response \<noteq> 200"
    by (simp add: refused_token_response_def)
  show ?thesis
    using linkedin_token_exchange_failure [OF a b c d]
    by (simp add: refused_token_response_def pending_session_def)
qed

subsection \<open>C6: no profile obtained\<close>

text \<open>
  Claim C6 says that a failed user-info fetch, and also a profile document without the
  field \<^verbatim>\<open>id\<close>, makes the callback raise the profile-fetch error without writing
  \<^verbatim>\<open>user\<close>. The code never looks at the fields of the document. What holds is: for a
  registered provider, once the state check and the token exchange have succeeded, a
  raised exception, a status other than 200, a body that cannot be parsed, or a falsy
  body (\<^verbatim>\<open>null\<close>, an empty document) gives the profile-fetch error (status 400) and
  \<^verbatim>\<open>user\<close> is not written; a truthy body of a 200 response is stored as \<^verbatim>\<open>user\<close>
  whatever its fields are.
\<close>

theorem profile_fetch_failure:
  assumes "truthy (session_get session ''oauth_state'')"
    and "session_get session ''oauth_state'' = query_get query ''state''"
    and "clients self provider = Some c"
    and "get_token cfg w provider c (session(''oauth_state'' := None)) query = Inr token"
  shows "((case client_get w c (userinfo_url c) token of
             Inl e \<Rightarrow> True
           | Inr resp \<Rightarrow> status_code resp \<noteq> 200
                         \<or> (case json_body resp of Inl e \<Rightarrow> True | Inr data \<Rightarrow> \<not> truthy data))
          \<longrightarrow> fst (handle_oauth_callback self cfg w provider session query) = Inl ProfileFetchError
              \<and> snd (handle_oauth_callback self cfg w provider session query) ''user'' = session ''user'')
       \<and> (client_get w c (userinfo_url c) token = Inr response \<and> status_code response = 200
              \<and> json_body response = Inr data \<and> truthy data
          \<longrightarrow> fst (handle_oauth_callback self cfg w provider session query)
                = Inr (RedirectResponse (case session ''redirect_path'' of
                                           None \<Rightarrow> JStr ''/success'' | Some p \<Rightarrow> p))
              \<and> snd (handle_oauth_callback self cfg w provider session query) ''user'' = Some data)"
proof (intro conjI impI)
  assume "case client_get w c (userinfo_url c) token of
             Inl e \<Rightarrow> True
           | Inr resp \<Rightarrow> status_code resp \<noteq> 200
                         \<or> (case json_body resp of Inl e \<Rightarrow> True | Inr data \<Rightarrow> \<not> truthy data)"
  then have no: "\<not> truthy (fetch_user_data w c token)"
    by (auto simp: fetch_user_data_def split: sum.splits)
  show "fst (handle_oauth_callback self cfg w provider session query) = Inl ProfileFetchError"
    using no by (simp add: state_check_passes [OF assms(1,2)] assms(3,4) ProfileFetchError_def)
  show "snd (handle_oauth_callback self cfg w provider session query) ''user'' = session ''user''"
    using no by (simp add: state_check_passes [OF assms(1,2)] assms(3,4))
next
  assume "client_get w c (userinfo_url c) token = Inr response \<and> status_code response = 200
              \<and> json_body response = Inr data \<and> truthy data"
  then have ok: "fetch_user_data w c token = data" "truthy data"
    by (simp_all add: fetch_user_data_def)
  show "fst (handle_oauth_callback self cfg w provider session query)
          = Inr (RedirectResponse (case session ''redirect_path'' of
                                     None \<Rightarrow> JStr ''/success'' | Some p \<Rightarrow> p))"
    using ok by (simp add: state_check_passes [OF assms(1,2)] assms(3,4))
  show "snd (handle_oauth_callback self cfg w provider session query) ''user'' = Some data"
    using ok by (simp add: state_check_passes [OF assms(1,2)] assms(3,4))
qed

theorem profile_fetch_failure_witness:
  "fst (handle_oauth_callback (OAuthService_init example_settings) example_settings
          failing_profile_world (provider_value GOOGLE) pending_session matching_query)
     = Inl ProfileFetchError
   \<and> snd (handle_oauth_callback (OAuthService_init example_settings) example_settings
          failing_profile_world (provider_value GOOGLE) pending_session matching_query) ''user'' = None
   \<and> snd (handle_oauth_callback (OAuthService_init example_settings) example_settings
          no_id_world (provider_value GOOGLE) pending_session matching_query) ''user''
     = Some profile_without_id"
proof -
  have t1: "get_token example_settings failing_profile_world (provider_value GOOGLE)
              (create_google_client example_settings) (pending_session(''oauth_state'' := None))
              matching_query = Inr example_token"
    unfolding failing_profile_world_def by (rule google_token_example)
  have t2: "get_token example_settings no_id_world (provider_value GOOGLE)
              (create_google_client example_settings) (pending_session(''oauth_state'' := None))
              matching_query = Inr example_token"
    unfolding no_id_world_def by (rule google_token_example)
  show ?thesis
    using profile_fetch_failure [OF pending_state_ok google_registered t1,
            of no_id_response profile_without_id]
          profile_fetch_failure [OF pending_state_ok google_registered t2,
            of no_id_response profile_without_id]
    by (simp add: failing_profile_world_def no_id_world_def no_id_response_def
          profile_without_id_def pending_session_def)
qed

text \<open>
  The statement as written fails for a 200 response whose document has an
  \<^verbatim>\<open>email\<close> and no \<^verbatim>\<open>id\<close>: the callback succeeds and stores the document.
\<close>

theorem profile_without_id_accepted_counterexample:
  "map_of [(''email'', JStr ''test@example.com'')] ''id'' = None
   \<and> client_get no_id_world (create_google_client example_settings)
        (userinfo_url (create_google_client example_settings)) example_token
       = Inr \<lparr> status_code = 200, text_body = [],
               json_body = Inr (JObj [(''email'', JStr ''test@example.com'')]) \<rparr>
   \<and> fst (handle_oauth_callback (OAuthService_init example_settings) example_settings no_id_world
            (provider_value GOOGLE) pending_session matching_query)
       = Inr (RedirectResponse (JStr ''/success''))
   \<and> snd (handle_oauth_callback (OAuthService_init example_settings) example_settings no_id_world
            (provider_value GOOGLE) pending_session matching_query) ''user''
       = Some (JObj [(''email'', JStr ''test@example.com'')])"
  by (simp add: handle_oauth_callback_def Let_def example_defs session_pop_def
        OAuthService_init_def initialize_clients_def get_token_def fetch_user_data_def
        no_id_world_def no_id_response_def profile_without_id_def example_world_def)

subsection \<open>C7: the successful callback\<close>

text \<open>
  Claim C7 says that for every session whose stored state matches the received state,
  a successful token exchange and profile fetch make the callback store the profile,
  remove \<^verbatim>\<open>redirect_path\<close> and return it (or \<^verbatim>\<open>/success\<close>) as the destination.
  This holds when the stored state is truthy: then, for a registered provider, a token
  and a truthy profile \<open>P\<close>, the call returns the redirect to the stored
  \<^verbatim>\<open>redirect_path\<close>, or to \<^verbatim>\<open>/success\<close> when none was stored, and the session is the
  old one without \<^verbatim>\<open>oauth_state\<close> and \<^verbatim>\<open>redirect_path\<close> and with \<^verbatim>\<open>user\<close> set to
  \<open>P\<close>, whatever \<^verbatim>\<open>user\<close> was before.
\<close>

theorem callback_success:
  assumes "truthy (session_get session ''oauth_state'')"
    and "session_get session ''oauth_state'' = query_get query ''state''"
    and "clients self provider = Some c"
    and "get_token cfg w provider c (session(''oauth_state'' := None)) query = Inr token"
    and "fetch_user_data w c token = P"
    and "truthy P"
  shows "handle_oauth_callback self cfg w provider session query
           = (Inr (RedirectResponse (case session ''redirect_path'' of
                                       None \<Rightarrow> JStr ''/success'' | Some p \<Rightarrow> p)),
              session(''oauth_state'' := None, ''user'' \<mapsto> P, ''redirect_path'' := None))
       \<and> snd (handle_oauth_callback self cfg w provider session query) ''user'' = Some P
       \<and> snd (handle_oauth_callback self cfg w provider session query) ''redirect_path'' = None"
  using assms(5,6) by (simp add: state_check_passes [OF assms(1,2)] assms(3,4))

theorem callback_success_witness:
  "handle_oauth_callback (OAuthService_init example_settings) example_settings example_world
     (provider_value GOOGLE) pending_session matching_query
     = (Inr (RedirectResponse (JStr ''/success'')), [''user'' \<mapsto> example_profile])
   \<and> handle_oauth_callback (OAuthService_init example_settings) example_settings example_world
     (provider_value GOOGLE)
     (pending_session(''redirect_path'' \<mapsto> JStr ''/custom-redirect'', ''user'' \<mapsto> JStr ''old''))
     matching_query
     = (Inr (RedirectResponse (JStr ''/custom-redirect'')), [''user'' \<mapsto> example_profile])"
proof -
  let ?s2 = "pending_session(''redirect_path'' \<mapsto> JStr ''/custom-redirect'', ''user'' \<mapsto> JStr ''old'')"
  have a2: "truthy (session_get ?s2 ''oauth_state'')"
    and b2: "session_get ?s2 ''oauth_state'' = query_get matching_query ''state''"
    by (simp_all add: example_defs)
  have t: "\<And>s. get_token example_settings example_world (provider_value GOOGLE)
              (create_google_client example_settings) s matching_query = Inr example_token"
    by (simp add: get_token_def example_world_def)
  have f: "fetch_user_data example_world (create_google_client example_settings) example_token
             = example_profile"
    by (simp add: fetch_user_data_def example_world_def)
  have p: "truthy example_profile" by (simp add: example_profile_def)
  have e1: "pending_session(''oauth_state'' := None, ''user'' \<mapsto> example_profile,
                            ''redirect_path'' := None) = [''user'' \<mapsto> example_profile]"
    by (rule ext) (simp add: pending_session_def)
  have e2: "?s2(''oauth_state'' := None, ''user'' \<mapsto> example_profile,
                            ''redirect_path'' := None) = [''user'' \<mapsto> example_profile]"
    by (rule ext) (simp add: pending_session_def)
  show ?thesis
    using callback_success [OF pending_state_ok google_registered t f p]
          callback_success [OF a2 b2 google_registered t f p]
    by (simp add: e1 e2) (simp add: pending_session_def)
qed

text \<open>
  The statement as written fails when the stored and the received state are both the
  empty string: they match, the collaborators would deliver a token and a profile, and
  the callback raises the invalid-state error without writing \<^verbatim>\<open>user\<close>.
\<close>

theorem empty_matching_state_counterexample:
  "session_get empty_state_session ''oauth_state'' = query_get empty_state_query ''state''
   \<and> empty_state_session ''oauth_state'' = Some (JStr [])
   \<and> get_token example_settings example_world (provider_value GOOGLE)
        (create_google_client example_settings) empty_state_session empty_state_query
       = Inr example_token
   \<and> fetch_user_data example_world (create_google_client example_settings) example_token
       = example_profile
   \<and> fst (handle_oauth_callback (OAuthService_init example_settings) example_settings example_world
            (provider_value GOOGLE) empty_state_session empty_state_query) = Inl InvalidStateError
   \<and> snd (handle_oauth_callback (OAuthService_init example_settings) example_settings example_world
            (provider_value GOOGLE) empty_state_session empty_state_query) ''user'' = None"
  by (simp add: handle_oauth_callback_def Let_def example_defs get_token_def fetch_user_data_def
        example_world_def InvalidStateError_def)

subsection \<open>C8: the state token of login initiation\<close>




subsection \<open>C9: logout\<close>

text \<open>
  Claim C9: logout returns (it has no raising branch) the redirect to the root and
  leaves the session empty, for every session; a second logout does the same.
\<close>

theorem logout_clears_session:
  "fst (logout session) = Inr (RedirectResponse (JStr ''/''))
   \<and> snd (logout session) = Map.empty
   \<and> dom (snd (logout session)) = {}
   \<and> logout (snd (logout session)) = logout session"
  by (simp add: logout_def)

theorem logout_clears_session_witness:
  "snd (logout (pending_session(''user'' \<mapsto> example_profile, ''redirect_path'' \<mapsto> JStr ''/custom''))) = Map.empty
   \<and> snd (logout Map.empty) = Map.empty"
  using logout_clears_session [of "pending_session(''user'' \<mapsto> example_profile, ''redirect_path'' \<mapsto> JStr ''/custom'')"]
        logout_clears_session [of Map.empty]
  by simp

subsection \<open>C10: an empty stored state\<close>

text \<open>
  Claim C10: when the stored state is the empty string and the received state is the
  empty string too, the two are equal and the callback still raises the invalid-state
  error, as for an absent state: the check rejects every falsy stored state.
\<close>

theorem empty_stored_state_rejected:
  assumes "session ''oauth_state'' = Some (JStr [])" and "query ''state'' = Some []"
  shows "session_get session ''oauth_state'' = query_get query ''state''
         \<and> handle_oauth_callback self cfg w provider session query = (Inl InvalidStateError, session)"
proof -
  have "\<not> truthy (session_get session ''oauth_state'')"
    using assms(1) by (simp add: session_get_def)
  then show ?thesis using assms
    by (simp add: state_check_fails InvalidStateError_def session_get_def query_get_def)
qed

theorem empty_stored_state_rejected_witness:
  "session_get empty_state_session ''oauth_state'' = query_get empty_state_query ''state''
   \<and> handle_oauth_callback (OAuthService_init example_settings) example_settings example_world
        (provider_value GOOGLE) empty_state_session empty_state_query
       = (Inl InvalidStateError, empty_state_session)"
  using empty_stored_state_rejected [of empty_state_session empty_state_query
          "OAuthService_init example_settings" example_settings example_world "provider_value GOOGLE"]
  by (simp add: example_defs)

end
